theory Spec2Isabelle
  imports Main
begin

section \<open>Data model of the recorder\<close>

text \<open>
  The embedding follows \<^verbatim>\<open>Recorder\<close> (the second unit of
  \<^verbatim>\<open>src/main/uploader.ts\<close>), \<^verbatim>\<open>Uploader\<close>,
  \<^verbatim>\<open>GoogleDriveUploader.uploadZip\<close> and the auto-upload check of the main process.

  Conventions.
  \<^item> A \<^verbatim>\<open>Date\<close> is its number of milliseconds since the epoch, an \<open>int\<close>. Every
    \<^verbatim>\<open>new Date()\<close> of the source is an explicit argument of the model (a clock reading),
    so that nothing is assumed about how readings relate to each other.
  \<^item> JavaScript numbers that hold seconds are \<open>int\<close>: the values are integers far
    below \<open>2 ^ 53\<close>, where \<^verbatim>\<open>Math.floor(x / 1000)\<close> is \<open>x div 1000\<close>.
  \<^item> Strings are byte strings (UTF-8). \<^verbatim>\<open>toLowerCase\<close> is modelled on ASCII letters
    only; it is used by the deny-list test alone, which the shipped capture cycle never
    reaches, and no claim below rests on it.
  \<^item> An ISO timestamp returned in the statistics is represented by its instant.
  \<^item> Objects that the source shares by reference (the \<^verbatim>\<open>Recorder\<close> instance held in
    the module variable \<^verbatim>\<open>recorder\<close>, and its \<^verbatim>\<open>screenshots\<close> array) live in an
    explicit store and are named by references.
\<close>

type_synonym ref = nat

record ScreenshotRecord =
  id' :: string
  timestamp :: string
  appName :: string
  windowTitle :: string
  filePath :: string
  thumbnailPath :: string
  durationSeconds :: int

record WindowInfo =
  app :: string
  title :: string
  since :: int

record RecorderOptions =
  intervalMs :: int
  dataDir :: string
  excludedApps :: "string list"

record Recorder =
  options :: RecorderOptions
  timer :: bool
  recording :: bool
  paused :: bool
  screenshots :: ref
  startTime :: "int option"
  lastWindowInfo :: "WindowInfo option"
  appUsage :: "(string \<times> int) list"

record RecordingStats =
  startTime' :: "int option"
  endTime :: "int option"
  totalScreenshots :: nat
  totalActiveSeconds :: int
  appSummary :: "(string \<times> int) list"

text \<open>
  The state of the process: the store of \<^verbatim>\<open>Recorder\<close> objects and of arrays, the files
  written by \<^verbatim>\<open>fs.writeFileSync\<close> (in order), the number of calls of the screenshot
  capability, the console output, the module variables of the main process, and whether
  \<^verbatim>\<open>app.exit\<close> was called.
\<close>

record sys =
  objects :: "ref \<Rightarrow> Recorder"
  arrays :: "ref \<Rightarrow> ScreenshotRecord list"
  nextRef :: ref
  disk :: "string list"
  shotsTaken :: nat
  console :: "string list"
  recorder :: "ref option"
  lastFailureNoticeAt :: int
  userNotices :: "string list"
  adminNotices :: "(string \<times> string \<times> nat) list"
  exited :: bool

definition self :: "sys \<Rightarrow> ref \<Rightarrow> Recorder" where
  "self w this = objects w this"

definition upd :: "ref \<Rightarrow> (Recorder \<Rightarrow> Recorder) \<Rightarrow> sys \<Rightarrow> sys" where
  "upd this f w = w\<lparr>objects := (objects w)(this := f (objects w this))\<rparr>"

definition logLine :: "string \<Rightarrow> sys \<Rightarrow> sys" where
  "logLine s w = w\<lparr>console := console w @ [s]\<rparr>"

section \<open>Application usage: a JavaScript object used as a dictionary\<close>

text \<open>
  \<^verbatim>\<open>appUsage\<close> is an object with one numeric property per application. It is an
  association list in insertion order: assigning to an existing key keeps its place,
  a new key goes last. The model is exact for keys that are not members of
  \<^verbatim>\<open>Object.prototype\<close>: for a key such as \<^verbatim>\<open>constructor\<close> a read of the
  JavaScript object gives the inherited member, not \<^verbatim>\<open>undefined\<close>. The recorder as
  shipped never writes a key (see \<open>reachable_idle\<close> below), so the claims do not depend
  on this.
\<close>

definition objectPrototypeMembers :: "string list" where
  "objectPrototypeMembers =
     [''constructor'', ''__proto__'', ''hasOwnProperty'', ''isPrototypeOf'',
      ''propertyIsEnumerable'', ''toLocaleString'', ''toString'', ''valueOf'',
      ''__defineGetter__'', ''__defineSetter__'', ''__lookupGetter__'', ''__lookupSetter__'']"

fun getUsage :: "(string \<times> int) list \<Rightarrow> string \<Rightarrow> int option" where
  "getUsage [] k = None"
| "getUsage ((k', v) # u) k = (if k' = k then Some v else getUsage u k)"

fun setUsage :: "string \<Rightarrow> int \<Rightarrow> (string \<times> int) list \<Rightarrow> (string \<times> int) list" where
  "setUsage k v [] = [(k, v)]"
| "setUsage k v ((k', v') # u) = (if k' = k then (k, v) # u else (k', v') # setUsage k v u)"

text \<open>\<^verbatim>\<open>this.appUsage[app] || 0\<close>: a missing property and the value \<open>0\<close> both give \<open>0\<close>.\<close>

definition usageOr0 :: "(string \<times> int) list \<Rightarrow> string \<Rightarrow> int" where
  "usageOr0 u k = (case getUsage u k of None \<Rightarrow> 0 | Some v \<Rightarrow> (if v = 0 then 0 else v))"

text \<open>\<^verbatim>\<open>Object.values(this.appUsage).reduce((a, b) => a + b, 0)\<close>\<close>

definition usageTotal :: "(string \<times> int) list \<Rightarrow> int" where
  "usageTotal u = foldl (\<lambda>a b. a + b) 0 (map snd u)"

section \<open>The recorder\<close>

text \<open>
  \<^verbatim>\<open>updateWindowDuration\<close>: the duration of the open window, from its anchor
  \<^verbatim>\<open>since\<close> to the clock reading, is added to the usage of its application.
  The source assigns to \<^verbatim>\<open>appUsage\<close> only; \<^verbatim>\<open>lastWindowInfo\<close> is not written.
\<close>

definition updateWindowDuration :: "int \<Rightarrow> Recorder \<Rightarrow> Recorder" where
  "updateWindowDuration now r =
     (case lastWindowInfo r of
        None \<Rightarrow> r
      | Some lw \<Rightarrow>
          (let durationSeconds = (now - since lw) div 1000;
               a = app lw
           in r\<lparr>appUsage := setUsage a (usageOr0 (appUsage r) a + durationSeconds) (appUsage r)\<rparr>))"

definition scheduleCapture :: "ref \<Rightarrow> sys \<Rightarrow> sys" where
  "scheduleCapture this w =
     (if \<not> recording (self w this) then w else upd this (\<lambda>r. r\<lparr>timer := True\<rparr>) w)"

text \<open>
  \<^verbatim>\<open>start\<close>: the two dynamic imports come first; when one is rejected the call is
  rejected before any field is written (\<open>None\<close>). \<^verbatim>\<open>this.screenshots = []\<close> allocates
  a new array. \<^verbatim>\<open>lastWindowInfo\<close> is not reset by \<^verbatim>\<open>start\<close>.
\<close>

definition start :: "ref \<Rightarrow> bool \<Rightarrow> int \<Rightarrow> sys \<Rightarrow> sys option" where
  "start this importsOk now w =
     (if \<not> importsOk then None
      else
        (let a = nextRef w;
             w1 = w\<lparr>arrays := (arrays w)(a := []), nextRef := Suc a\<rparr>;
             w2 = upd this (\<lambda>r. r\<lparr>recording := True, paused := False,
                                  startTime := Some now, screenshots := a, appUsage := []\<rparr>) w1;
             w3 = logLine ''Recording started'' w2
         in Some (scheduleCapture this w3)))"

definition stop :: "ref \<Rightarrow> int \<Rightarrow> sys \<Rightarrow> sys" where
  "stop this now w =
     (let w1 = upd this (\<lambda>r. r\<lparr>recording := False\<rparr>) w;
          w2 = (if timer (self w1 this) then upd this (\<lambda>r. r\<lparr>timer := False\<rparr>) w1 else w1);
          w3 = upd this (updateWindowDuration now) w2
      in logLine ''Recording stopped'' w3)"

definition pause :: "ref \<Rightarrow> int \<Rightarrow> sys \<Rightarrow> sys" where
  "pause this now w =
     (let w1 = upd this (\<lambda>r. r\<lparr>paused := True\<rparr>) w;
          w2 = upd this (updateWindowDuration now) w1
      in logLine ''Recording paused'' w2)"

definition resume :: "ref \<Rightarrow> sys \<Rightarrow> sys" where
  "resume this w =
     (let w1 = upd this (\<lambda>r. r\<lparr>paused := False\<rparr>) w;
          w2 = upd this (\<lambda>r. r\<lparr>lastWindowInfo := None\<rparr>) w1
      in logLine ''Recording resumed'' w2)"

definition isRecording :: "ref \<Rightarrow> sys \<Rightarrow> bool" where
  "isRecording this w = (recording (self w this) \<and> \<not> paused (self w this))"

text \<open>
  \<^verbatim>\<open>getStats\<close> reads the clock twice: once in \<^verbatim>\<open>updateWindowDuration\<close> and once
  for \<^verbatim>\<open>endTime\<close>. It returns the statistics and the state after the flush.
\<close>

definition getStats :: "ref \<Rightarrow> int \<Rightarrow> int \<Rightarrow> sys \<Rightarrow> RecordingStats \<times> sys" where
  "getStats this tFlush tEnd w =
     (let w1 = upd this (updateWindowDuration tFlush) w;
          r = self w1 this;
          total = usageTotal (appUsage r)
      in (\<lparr>startTime' = startTime r,
           endTime = (if recording r then None else Some tEnd),
           totalScreenshots = length (arrays w1 (screenshots r)),
           totalActiveSeconds = total,
           appSummary = appUsage r\<rparr>, w1))"

section \<open>Strings and paths\<close>

definition toLowerChar :: "char \<Rightarrow> char" where
  "toLowerChar c =
     (case map_of (zip ''ABCDEFGHIJKLMNOPQRSTUVWXYZ'' ''abcdefghijklmnopqrstuvwxyz'') c of
        None \<Rightarrow> c
      | Some d \<Rightarrow> d)"

definition toLowerCase :: "string \<Rightarrow> string" where
  "toLowerCase s = map toLowerChar s"

fun startsWith :: "string \<Rightarrow> string \<Rightarrow> bool" where
  "startsWith s [] = True"
| "startsWith [] (c # sub) = False"
| "startsWith (d # s) (c # sub) = (d = c \<and> startsWith s sub)"

text \<open>\<^verbatim>\<open>s.includes(sub)\<close>\<close>

fun includes' :: "string \<Rightarrow> string \<Rightarrow> bool" where
  "includes' [] sub = (sub = [])"
| "includes' (d # s) sub = (startsWith (d # s) sub \<or> includes' s sub)"

text \<open>
  \<^verbatim>\<open>path.basename\<close> and \<^verbatim>\<open>path.join\<close> with the POSIX separator. \<^verbatim>\<open>basename\<close> drops
  trailing separators and keeps what follows the last remaining one. \<^verbatim>\<open>join\<close> is
  exact for segments that need no normalisation: an absolute, normalised directory
  without a trailing separator (as \<^verbatim>\<open>path.join(app.getPath('userData'), 'recordings')\<close>
  is) and file names without a separator. The Windows separator is not modelled.
\<close>

definition basename :: "string \<Rightarrow> string" where
  "basename p =
     rev (takeWhile (\<lambda>c. c \<noteq> CHR ''/'') (dropWhile (\<lambda>c. c = CHR ''/'') (rev p)))"

definition pathJoin :: "string \<Rightarrow> string \<Rightarrow> string \<Rightarrow> string" where
  "pathJoin a b c = a @ ''/'' @ b @ ''/'' @ c"

section \<open>Construction and capture\<close>

datatype 'a outcome = Resolved 'a | Rejected string

record RecorderOptionsArg =
  intervalMsArg :: int
  dataDirArg :: string
  excludedAppsArg :: "string list option"

definition defaultExcludedApps :: "string list" where
  "defaultExcludedApps =
     [''LINE'', ''Slack'', ''Discord'',
      [CHR 0xE3, CHR 0x83, CHR 0xA1, CHR 0xE3, CHR 0x83, CHR 0x83, CHR 0xE3, CHR 0x82, CHR 0xBB,
       CHR 0xE3, CHR 0x83, CHR 0xBC, CHR 0xE3, CHR 0x82, CHR 0xB8],
      ''Messages'', ''FaceTime'', ''Zoom'', ''Microsoft Teams'']"

text \<open>
  The constructor. \<^verbatim>\<open>options.excludedApps || defaultExcludedApps\<close>: only a missing
  list is replaced (an empty array is truthy). The three \<^verbatim>\<open>mkdirSync\<close> calls are one
  flag: when one throws, no object is returned.
\<close>

definition newRecorder :: "RecorderOptionsArg \<Rightarrow> bool \<Rightarrow> sys \<Rightarrow> (ref \<times> sys) option" where
  "newRecorder opts mkdirOk w =
     (if \<not> mkdirOk then None
      else
        (let this = nextRef w;
             a = Suc this;
             r = \<lparr>options = \<lparr>intervalMs = intervalMsArg opts, dataDir = dataDirArg opts,
                              excludedApps = (case excludedAppsArg opts of
                                                None \<Rightarrow> defaultExcludedApps | Some l \<Rightarrow> l)\<rparr>,
                  timer = False, recording = False, paused = False, screenshots = a,
                  startTime = None, lastWindowInfo = None, appUsage = []\<rparr>
         in Some (this, w\<lparr>objects := (objects w)(this := r),
                          arrays := (arrays w)(a := []), nextRef := Suc a\<rparr>)))"

definition isExcludedApp :: "Recorder \<Rightarrow> string \<Rightarrow> bool" where
  "isExcludedApp r name =
     list_ex (\<lambda>excluded. includes' (toLowerCase name) (toLowerCase excluded))
       (excludedApps (options r))"

text \<open>
  What one capture cycle reads from outside: the clock in \<^verbatim>\<open>updateWindowDuration\<close>,
  the clock for \<^verbatim>\<open>since\<close>, the ISO string of the clock for \<^verbatim>\<open>timestamp\<close>, the
  random identifier, the result of the screenshot capability and whether each of the two
  \<^verbatim>\<open>writeFileSync\<close> calls succeeds.
\<close>

record CaptureEnv =
  nowFlush :: int
  nowSince :: int
  isoStamp :: string
  uuid :: string
  shot :: "string outcome"
  writeFull :: bool
  writeThumb :: bool

datatype activeWin = WinInfo string string | WinUndefined | WinRejected

text \<open>
  The source fixes \<^verbatim>\<open>const USE_ACTIVE_WIN = false\<close>, with the comment that the
  inspection can be enabled where the permission is granted. The identity resolution
  takes the flag as an argument; \<open>capture\<close> below is the cycle as shipped.
\<close>

definition USE_ACTIVE_WIN :: bool where
  "USE_ACTIVE_WIN = False"

definition resolveWindow :: "bool \<Rightarrow> activeWin \<Rightarrow> string \<times> string" where
  "resolveWindow useActiveWin win =
     (if useActiveWin
      then (case win of WinInfo name t \<Rightarrow> (name, t) | WinUndefined \<Rightarrow> (''Unknown'', [])
            | WinRejected \<Rightarrow> (''Unknown'', []))
      else (''Unknown'', []))"

definition push :: "ref \<Rightarrow> ScreenshotRecord \<Rightarrow> sys \<Rightarrow> sys" where
  "push a x w = w\<lparr>arrays := (arrays w)(a := arrays w a @ [x])\<rparr>"

definition fileNameOf :: "string \<Rightarrow> string" where
  "fileNameOf stamp =
     map (\<lambda>c. if c = CHR '':'' \<or> c = CHR ''.'' then CHR ''-'' else c) stamp @ ''.jpg''"

text \<open>
  The body of \<^verbatim>\<open>capture\<close> from the exclusion check on, for a resolved identity.
  Every exception is caught and logged by the enclosing \<^verbatim>\<open>try\<close>.
\<close>

definition captureResolved :: "ref \<Rightarrow> CaptureEnv \<Rightarrow> string \<Rightarrow> string \<Rightarrow> sys \<Rightarrow> sys" where
  "captureResolved this env name wtitle w =
     (if name \<noteq> ''Unknown'' \<and> isExcludedApp (self w this) name
      then logLine (''Excluded app: '' @ name) w
      else
        (let w1 = (if name \<noteq> ''Unknown''
                   then upd this (\<lambda>r. (updateWindowDuration (nowFlush env) r)
                          \<lparr>lastWindowInfo :=
                             Some \<lparr>app = name, title = wtitle, since = nowSince env\<rparr>\<rparr>) w
                   else w);
             filename = fileNameOf (isoStamp env);
             fp = pathJoin (dataDir (options (self w1 this))) ''screenshots'' filename;
             tp = pathJoin (dataDir (options (self w1 this))) ''thumbnails'' filename;
             w2 = w1\<lparr>shotsTaken := Suc (shotsTaken w1)\<rparr>
         in case shot env of
              Rejected e \<Rightarrow> logLine (''Capture error: '' @ e) w2
            | Resolved img \<Rightarrow>
                if \<not> writeFull env then logLine ''Capture error: write'' w2
                else
                  (let w3 = w2\<lparr>disk := disk w2 @ [fp]\<rparr> in
                   if \<not> writeThumb env then logLine ''Capture error: write'' w3
                   else
                     (let w4 = w3\<lparr>disk := disk w3 @ [tp]\<rparr>;
                          record = \<lparr>id' = uuid env, timestamp = isoStamp env, appName = name,
                                     windowTitle = wtitle, filePath = fp, thumbnailPath = tp,
                                     durationSeconds = 0\<rparr>;
                          w5 = push (screenshots (self w4 this)) record w4
                      in logLine (''Captured: '' @ name @ '' - '' @ wtitle) w5))))"

definition captureWith :: "bool \<Rightarrow> ref \<Rightarrow> activeWin \<Rightarrow> CaptureEnv \<Rightarrow> sys \<Rightarrow> sys" where
  "captureWith useActiveWin this win env w =
     (let w0 = (if useActiveWin \<and> win = WinRejected
                then logLine ''Active window info unavailable (permission required)'' w
                else w)
      in captureResolved this env (fst (resolveWindow useActiveWin win))
           (snd (resolveWindow useActiveWin win)) w0)"


text \<open>
  The timer callback of \<^verbatim>\<open>scheduleCapture\<close>: it runs only when a timer is armed,
  captures unless paused, and re-arms while recording.
\<close>

definition tickWith :: "bool \<Rightarrow> ref \<Rightarrow> activeWin \<Rightarrow> CaptureEnv \<Rightarrow> sys \<Rightarrow> sys" where
  "tickWith useActiveWin this win env w =
     (if \<not> timer (self w this) then w
      else
        (let w1 = (if \<not> paused (self w this) then captureWith useActiveWin this win env w
                   else w)
         in scheduleCapture this w1))"

definition tick :: "ref \<Rightarrow> activeWin \<Rightarrow> CaptureEnv \<Rightarrow> sys \<Rightarrow> sys" where
  "tick = tickWith USE_ACTIVE_WIN"

section \<open>Reading the screenshots\<close>

definition redact :: "ScreenshotRecord \<Rightarrow> ScreenshotRecord" where
  "redact s = s\<lparr>filePath := basename (filePath s), thumbnailPath := basename (thumbnailPath s)\<rparr>"

text \<open>\<^verbatim>\<open>getScreenshots\<close>: \<^verbatim>\<open>map\<close> builds a new array of new objects.\<close>

definition getScreenshots :: "ref \<Rightarrow> sys \<Rightarrow> ref \<times> sys" where
  "getScreenshots this w =
     (let a = nextRef w;
          xs = map redact (arrays w (screenshots (self w this)))
      in (a, w\<lparr>arrays := (arrays w)(a := xs), nextRef := Suc a\<rparr>))"

record UploadData =
  stats :: RecordingStats
  screenshots' :: ref
  dataDir' :: string

text \<open>\<^verbatim>\<open>exportData\<close>: the \<^verbatim>\<open>screenshots\<close> property is \<^verbatim>\<open>this.screenshots\<close> itself.\<close>

definition exportData :: "ref \<Rightarrow> int \<Rightarrow> int \<Rightarrow> sys \<Rightarrow> UploadData \<times> sys" where
  "exportData this tFlush tEnd w =
     (let st = getStats this tFlush tEnd w;
          w1 = snd st
      in (\<lparr>stats = fst st, screenshots' = screenshots (self w1 this),
           dataDir' = dataDir (options (self w1 this))\<rparr>, w1))"


section \<open>The Drive transport\<close>

text \<open>
  \<^verbatim>\<open>GoogleDriveUploader.uploadZip\<close>. What the network and the file system answer is
  an argument: the access token, the two folder look-ups, the size of the archive, and
  the reply to each upload request. A rejected promise or a thrown error carries the
  text that \<^verbatim>\<open>String(error)\<close> gives. An absent subject name is the empty string
  (both are falsy). The result is paired with the upload requests that were issued, in
  order.
\<close>

record DriveFile =
  fid :: "string option"
  link :: "string option"

record HttpResponse =
  ok :: bool
  bodyText :: string
  location :: "string option"
  bodyJson :: "DriveFile outcome"

record UploadResult =
  success :: bool
  fileId :: "string option"
  webViewLink :: "string option"
  error :: "string option"

datatype transfer = MultipartPost | ResumableInit | ResumablePut string

record DriveNet =
  accessToken :: "string outcome"
  projectFolder :: "string outcome"
  subjectFolder :: "string outcome"
  zipFile :: "nat outcome"
  multipartReply :: "HttpResponse outcome"
  initReply :: "HttpResponse outcome"
  putReply :: "HttpResponse outcome"

definition failed :: "string \<Rightarrow> transfer list \<Rightarrow> UploadResult \<times> transfer list" where
  "failed e reqs = (\<lparr>success = False, fileId = None, webViewLink = None, error = Some e\<rparr>, reqs)"

definition uploadZip :: "DriveNet \<Rightarrow> string \<Rightarrow> UploadResult \<times> transfer list" where
  "uploadZip net subjectName =
     (case accessToken net of
        Rejected e \<Rightarrow> failed e []
      | Resolved tok \<Rightarrow>
     (case projectFolder net of
        Rejected e \<Rightarrow> failed e []
      | Resolved projectFolderId \<Rightarrow>
     (case (if subjectName \<noteq> [] then subjectFolder net else Resolved projectFolderId) of
        Rejected e \<Rightarrow> failed e []
      | Resolved targetFolderId \<Rightarrow>
     (case zipFile net of
        Rejected e \<Rightarrow> failed e []
      | Resolved fileSize \<Rightarrow>
          if fileSize < 5 * 1024 * 1024
          then
            (case multipartReply net of
               Rejected e \<Rightarrow> failed e [MultipartPost]
             | Resolved response \<Rightarrow>
                 if \<not> ok response
                 then failed (''Error: Upload failed: '' @ bodyText response) [MultipartPost]
                 else
                   (case bodyJson response of
                      Rejected e \<Rightarrow> failed e [MultipartPost]
                    | Resolved result \<Rightarrow>
                        (\<lparr>success = True, fileId = fid result, webViewLink = link result,
                          error = None\<rparr>, [MultipartPost])))
          else
            (case initReply net of
               Rejected e \<Rightarrow> failed e [ResumableInit]
             | Resolved initResponse \<Rightarrow>
                 if \<not> ok initResponse
                 then failed (''Error: Upload initiation failed: '' @ bodyText initResponse)
                        [ResumableInit]
                 else
                   (case location initResponse of
                      None \<Rightarrow> failed ''Error: No upload URL received'' [ResumableInit]
                    | Some uploadUrl \<Rightarrow>
                        if uploadUrl = []
                        then failed ''Error: No upload URL received'' [ResumableInit]
                        else
                          (case putReply net of
                             Rejected e \<Rightarrow> failed e [ResumableInit, ResumablePut uploadUrl]
                           | Resolved uploadResponse \<Rightarrow>
                               if \<not> ok uploadResponse
                               then failed (''Error: File upload failed: ''
                                              @ bodyText uploadResponse)
                                      [ResumableInit, ResumablePut uploadUrl]
                               else
                                 (case bodyJson uploadResponse of
                                    Rejected e \<Rightarrow>
                                      failed e [ResumableInit, ResumablePut uploadUrl]
                                  | Resolved result \<Rightarrow>
                                      (\<lparr>success = True, fileId = fid result,
                                        webViewLink = link result, error = None\<rparr>,
                                       [ResumableInit, ResumablePut uploadUrl])))))))))"

section \<open>The uploader\<close>

record GoogleDriveConfig =
  client_id :: string
  client_secret :: string
  refresh_token :: string
  folder_id :: string

record Config =
  token :: string
  api_url :: string
  subject_name :: string
  project_name :: string
  google_drive :: "GoogleDriveConfig option"

record UploadReply =
  success' :: bool
  message :: string

record ApiResponse =
  apiOk :: bool
  apiStatus :: string
  apiText :: string
  apiJson :: "UploadReply outcome"

record UploadNet =
  zipArchive :: "unit outcome"
  driveNet :: DriveNet
  unlinkZip :: "unit outcome"
  apiReply :: "ApiResponse outcome"

definition uploadFailedPrefix :: string where
  "uploadFailedPrefix =
     [CHR 0xE3, CHR 0x82, CHR 0xA2, CHR 0xE3, CHR 0x83, CHR 0x83, CHR 0xE3, CHR 0x83,
      CHR 0x97, CHR 0xE3, CHR 0x83, CHR 0xAD, CHR 0xE3, CHR 0x83, CHR 0xBC, CHR 0xE3,
      CHR 0x83, CHR 0x89, CHR 0xE5, CHR 0xA4, CHR 0xB1, CHR 0xE6, CHR 0x95, CHR 0x97,
      CHR 0x3A, CHR 0x20]"

definition driveUploadedMessage :: string where
  "driveUploadedMessage =
     [CHR 0x47, CHR 0x6F, CHR 0x6F, CHR 0x67, CHR 0x6C, CHR 0x65, CHR 0x20, CHR 0x44,
      CHR 0x72, CHR 0x69, CHR 0x76, CHR 0x65, CHR 0xE3, CHR 0x81, CHR 0xAB, CHR 0xE3,
      CHR 0x82, CHR 0xA2, CHR 0xE3, CHR 0x83, CHR 0x83, CHR 0xE3, CHR 0x83, CHR 0x97,
      CHR 0xE3, CHR 0x83, CHR 0xAD, CHR 0xE3, CHR 0x83, CHR 0xBC, CHR 0xE3, CHR 0x83,
      CHR 0x89, CHR 0xE3, CHR 0x81, CHR 0x97, CHR 0xE3, CHR 0x81, CHR 0xBE, CHR 0xE3,
      CHR 0x81, CHR 0x97, CHR 0xE3, CHR 0x81, CHR 0x9F]"

text \<open>\<^verbatim>\<open>String(new Error(m))\<close>\<close>

definition errorString :: "string option \<Rightarrow> string" where
  "errorString m =
     (case m of None \<Rightarrow> ''Error'' | Some t \<Rightarrow> (if t = [] then ''Error'' else ''Error: '' @ t))"

text \<open>
  \<^verbatim>\<open>uploadToGoogleDrive\<close>: everything runs inside one \<^verbatim>\<open>try\<close>, so the call always
  returns a reply. The notification of the metadata endpoint after a successful upload
  swallows its own errors and does not change the reply.
\<close>

definition uploadToGoogleDrive :: "Config \<Rightarrow> UploadNet \<Rightarrow> UploadReply" where
  "uploadToGoogleDrive cfg net =
     (case zipArchive net of
        Rejected e \<Rightarrow> \<lparr>success' = False, message = uploadFailedPrefix @ e\<rparr>
      | Resolved u \<Rightarrow>
          (let result = fst (uploadZip (driveNet net) (subject_name cfg)) in
           case unlinkZip net of
             Rejected e \<Rightarrow> \<lparr>success' = False, message = uploadFailedPrefix @ e\<rparr>
           | Resolved u' \<Rightarrow>
               if success result
               then \<lparr>success' = True, message = driveUploadedMessage\<rparr>
               else \<lparr>success' = False,
                      message = uploadFailedPrefix @ errorString (error result)\<rparr>))"

text \<open>\<^verbatim>\<open>uploadToApi\<close> has no \<^verbatim>\<open>try\<close>: a failed request is a rejected promise.\<close>

definition uploadToApi :: "UploadNet \<Rightarrow> UploadReply outcome" where
  "uploadToApi net =
     (case apiReply net of
        Rejected e \<Rightarrow> Rejected e
      | Resolved response \<Rightarrow>
          if \<not> apiOk response
          then Rejected (''Error: Upload failed: '' @ apiStatus response @ '' - ''
                          @ apiText response)
          else apiJson response)"

text \<open>
  \<^verbatim>\<open>Uploader.upload\<close>. The metadata record it builds from the snapshot is only sent;
  the snapshot is read, never written, so the call takes no state and returns none.
\<close>

definition upload :: "Config \<Rightarrow> UploadNet \<Rightarrow> UploadData \<Rightarrow> UploadReply outcome" where
  "upload cfg net data =
     (case google_drive cfg of
        Some g \<Rightarrow> Resolved (uploadToGoogleDrive cfg net)
      | None \<Rightarrow> uploadToApi net)"

section \<open>The auto-upload check of the main process\<close>

definition FAILURE_NOTICE_THROTTLE_MS :: int where
  "FAILURE_NOTICE_THROTTLE_MS = 30 * 60 * 1000"

definition AUTO_UPLOAD_THRESHOLD :: nat where
  "AUTO_UPLOAD_THRESHOLD = 50"

definition autoSendFailedMessage :: string where
  "autoSendFailedMessage =
     [CHR 0xE8, CHR 0x87, CHR 0xAA, CHR 0xE5, CHR 0x8B, CHR 0x95, CHR 0xE9, CHR 0x80,
      CHR 0x81, CHR 0xE4, CHR 0xBF, CHR 0xA1, CHR 0xE3, CHR 0x81, CHR 0xAB, CHR 0xE5,
      CHR 0xA4, CHR 0xB1, CHR 0xE6, CHR 0x95, CHR 0x97, CHR 0xE3, CHR 0x81, CHR 0x97,
      CHR 0xE3, CHR 0x81, CHR 0xBE, CHR 0xE3, CHR 0x81, CHR 0x97, CHR 0xE3, CHR 0x81,
      CHR 0x9F, CHR 0xE3, CHR 0x80, CHR 0x82]"

text \<open>
  \<^verbatim>\<open>notifyUserFailure\<close> keeps the first line of the notice; \<^verbatim>\<open>notifyUploadFailure\<close>
  records what it posts (its own failures are swallowed). Console output of the main
  process is not modelled.
\<close>

definition notifyUserFailure :: "int \<Rightarrow> string \<Rightarrow> sys \<Rightarrow> sys" where
  "notifyUserFailure now msg w =
     (if now - lastFailureNoticeAt w < FAILURE_NOTICE_THROTTLE_MS then w
      else w\<lparr>lastFailureNoticeAt := now, userNotices := userNotices w @ [msg]\<rparr>)"

definition notifyUploadFailure :: "string \<Rightarrow> string \<Rightarrow> nat \<Rightarrow> sys \<Rightarrow> sys" where
  "notifyUploadFailure source err n w = w\<lparr>adminNotices := adminNotices w @ [(source, err, n)]\<rparr>"

record AutoEnv =
  tStatsFlush :: int
  tStatsEnd :: int
  tExportFlush :: int
  tExportEnd :: int
  tStop :: int
  tStart :: int
  tNotice :: int
  net :: UploadNet
  recordingsDir :: string
  mkdirOk :: bool
  importsOk :: bool

definition reportFailure :: "AutoEnv \<Rightarrow> string \<Rightarrow> nat \<Rightarrow> sys \<Rightarrow> sys" where
  "reportFailure env err n w =
     notifyUserFailure (tNotice env) autoSendFailedMessage (notifyUploadFailure ''auto'' err n w)"

definition runAutoUploadCheck :: "Config option \<Rightarrow> AutoEnv \<Rightarrow> sys \<Rightarrow> sys" where
  "runAutoUploadCheck config env w =
     (case recorder w of
        None \<Rightarrow> w
      | Some this \<Rightarrow>
     (case config of
        None \<Rightarrow> w
      | Some cfg \<Rightarrow>
          (let st = getStats this (tStatsFlush env) (tStatsEnd env) w;
               stats = fst st;
               w1 = snd st
           in if totalScreenshots stats < AUTO_UPLOAD_THRESHOLD then w1
              else
                (let ex = exportData this (tExportFlush env) (tExportEnd env) w1;
                     data = fst ex;
                     w2 = snd ex
                 in case upload cfg (net env) data of
                      Rejected e \<Rightarrow> reportFailure env e (totalScreenshots stats) w2
                    | Resolved result \<Rightarrow>
                        if success' result
                        then
                          (let w3 = stop this (tStop env) w2 in
                           case newRecorder \<lparr>intervalMsArg = 60000,
                                               dataDirArg = recordingsDir env,
                                               excludedAppsArg = None\<rparr> (mkdirOk env) w3 of
                             None \<Rightarrow>
                               reportFailure env ''mkdir'' (totalScreenshots stats) w3
                           | Some (fresh, w4) \<Rightarrow>
                               (let w5 = w4\<lparr>recorder := Some fresh\<rparr> in
                                case start fresh (importsOk env) (tStart env) w5 of
                                  None \<Rightarrow>
                                    reportFailure env ''import'' (totalScreenshots stats) w5
                                | Some w6 \<Rightarrow> w6))
                        else reportFailure env (message result) (totalScreenshots stats) w2))))"

section \<open>The other callers of the uploader\<close>

text \<open>
  The remote-stop check, the end-of-study check and the manual upload handler of the
  main process. The first two discard what \<^verbatim>\<open>upload\<close> returns: after the dialog they
  call \<^verbatim>\<open>recorder?.stop()\<close> and \<^verbatim>\<open>app.exit(0)\<close>. In the remote-stop check a rejected
  upload is caught by the handler's \<^verbatim>\<open>try\<close>, which skips the stop and the exit; in the
  end-of-study check it rejects the detached async function, so the stop and the exit
  are skipped as well (what the runtime does with that rejection is not modelled).
\<close>

record StatusData =
  should_stop :: bool
  statusMessage :: string

record StatusResponse =
  statusOk :: bool
  statusJson :: "StatusData outcome"

record FinalEnv =
  fExportFlush :: int
  fExportEnd :: int
  fStop :: int
  fNet :: UploadNet

definition finalExport :: "Config \<Rightarrow> FinalEnv \<Rightarrow> sys \<Rightarrow> sys" where
  "finalExport cfg env w =
     (case recorder w of
        None \<Rightarrow> w\<lparr>exited := True\<rparr>
      | Some this \<Rightarrow>
          (let ex = exportData this (fExportFlush env) (fExportEnd env) w;
               w1 = snd ex
           in case upload cfg (fNet env) (fst ex) of
                Rejected e \<Rightarrow> w1
              | Resolved result \<Rightarrow> (stop this (fStop env) w1)\<lparr>exited := True\<rparr>))"

definition remoteStopCheck ::
  "Config option \<Rightarrow> StatusResponse outcome \<Rightarrow> FinalEnv \<Rightarrow> sys \<Rightarrow> sys" where
  "remoteStopCheck config reply env w =
     (case config of
        None \<Rightarrow> w
      | Some cfg \<Rightarrow>
          (case reply of
             Rejected e \<Rightarrow> w
           | Resolved response \<Rightarrow>
               if \<not> statusOk response then w
               else
                 (case statusJson response of
                    Rejected e \<Rightarrow> w
                  | Resolved data \<Rightarrow>
                      if should_stop data then finalExport cfg env w else w)))"

text \<open>
  \<^verbatim>\<open>checkEndDate\<close> is installed only when the configuration has an end date; \<open>None\<close>
  is a string that \<^verbatim>\<open>new Date\<close> cannot parse (every comparison with it is false).
\<close>

definition checkEndDate :: "Config \<Rightarrow> int option \<Rightarrow> int \<Rightarrow> FinalEnv \<Rightarrow> sys \<Rightarrow> sys" where
  "checkEndDate cfg endDate now env w =
     (case endDate of
        None \<Rightarrow> w
      | Some d \<Rightarrow> if d \<le> now then finalExport cfg env w else w)"

text \<open>The handler of \<^verbatim>\<open>upload-data\<close>: it reports, and neither stops nor replaces.\<close>

definition uploadDataHandler :: "Config option \<Rightarrow> FinalEnv \<Rightarrow> sys \<Rightarrow> bool \<times> sys" where
  "uploadDataHandler config env w =
     (case config of
        None \<Rightarrow> (False, w)
      | Some cfg \<Rightarrow>
          (case recorder w of
             None \<Rightarrow> (False, w)
           | Some this \<Rightarrow>
               (let ex = exportData this (fExportFlush env) (fExportEnd env) w;
                    data = fst ex;
                    w1 = snd ex
                in case upload cfg (fNet env) data of
                     Rejected e \<Rightarrow>
                       (False, notifyUploadFailure ''manual'' e (totalScreenshots (stats data)) w1)
                   | Resolved result \<Rightarrow>
                       if \<not> success' result
                       then (False, notifyUploadFailure ''manual'' (message result)
                                      (totalScreenshots (stats data)) w1)
                       else (True, w1))))"

section \<open>Sessions, and the accounting as the specification words it\<close>

text \<open>
  A session is a sequence of events: a timer callback with the window in front and what
  the cycle reads from outside, a pause, a resume, a stop, a statistics read. \<open>run\<close>
  drives the recorder with them through its own entry points.
\<close>

datatype event = Cycle activeWin CaptureEnv | Pause int | Resume | Stop int | Stats int int

definition envAt :: "int \<Rightarrow> CaptureEnv" where
  "envAt t = \<lparr>nowFlush = t, nowSince = t, isoStamp = ''1970-01-01T00:00:00.000Z'',
              uuid = ''00000000-0000-4000-8000-000000000000'', shot = Resolved ''jpg'',
              writeFull = True, writeThumb = True\<rparr>"

fun step :: "ref \<Rightarrow> sys \<Rightarrow> event \<Rightarrow> sys" where
  "step this w (Cycle win env) = tick this win env w"
| "step this w (Pause t) = pause this t w"
| "step this w Resume = resume this w"
| "step this w (Stop t) = stop this t w"
| "step this w (Stats t t') = snd (getStats this t t' w)"

definition run :: "ref \<Rightarrow> event list \<Rightarrow> sys \<Rightarrow> sys" where
  "run this evs w = foldl (step this) w evs"







section \<open>A concrete session\<close>

definition blankRecorder :: Recorder where
  "blankRecorder =
     \<lparr>options = \<lparr>intervalMs = 0, dataDir = [], excludedApps = []\<rparr>, timer = False,
      recording = False, paused = False, screenshots = 0, startTime = None,
      lastWindowInfo = None, appUsage = []\<rparr>"

definition emptySys :: sys where
  "emptySys =
     \<lparr>objects = (\<lambda>a. blankRecorder), arrays = (\<lambda>a. []), nextRef = 0, disk = [],
      shotsTaken = 0, console = [], recorder = None, lastFailureNoticeAt = 0,
      userNotices = [], adminNotices = [], exited = False\<rparr>"

section \<open>The states the process can reach\<close>


definition idle :: "sys \<Rightarrow> bool" where
  "idle w = (\<forall>a. lastWindowInfo (objects w a) = None \<and> appUsage (objects w a) = [])"

section \<open>A concrete session, continued\<close>

text \<open>
  The process after \<^verbatim>\<open>new Recorder\<close> (reference \<open>0\<close>, its array \<open>1\<close>) and
  \<^verbatim>\<open>start()\<close> at instant \<open>0\<close> (its array \<open>2\<close>), with the deny-list \<^verbatim>\<open>["Slack"]\<close>.
\<close>

definition demoOptions :: RecorderOptionsArg where
  "demoOptions = \<lparr>intervalMsArg = 60000, dataDirArg = ''/data/recordings'',
                   excludedAppsArg = Some [''Slack'']\<rparr>"

definition demoSys :: sys where
  "demoSys =
     (case newRecorder demoOptions True emptySys of
        None \<Rightarrow> emptySys
      | Some (this, w) \<Rightarrow>
          (case start this True 0 (w\<lparr>recorder := Some this\<rparr>) of
             None \<Rightarrow> emptySys
           | Some w' \<Rightarrow> w'))"

text \<open>Replies of a Drive service that accepts every request, for an archive of \<open>n\<close> bytes.\<close>

definition exResp :: HttpResponse where
  "exResp = \<lparr>ok = True, bodyText = [], location = Some ''https://upload'',
             bodyJson = Resolved \<lparr>fid = Some ''f1'', link = Some ''https://view''\<rparr>\<rparr>"

definition exNet :: "nat \<Rightarrow> DriveNet" where
  "exNet n = \<lparr>accessToken = Resolved ''tok'', projectFolder = Resolved ''p'',
              subjectFolder = Resolved ''s'', zipFile = Resolved n,
              multipartReply = Resolved exResp, initReply = Resolved exResp,
              putReply = Resolved exResp\<rparr>"

text \<open>
  A session that holds 50 records, a configuration without Drive credentials, and the
  environment of one auto-upload check whose API request gets the given reply.
\<close>

definition demoRecord :: ScreenshotRecord where
  "demoRecord =
     \<lparr>id' = ''00000000-0000-4000-8000-000000000000'', timestamp = ''1970-01-01T00:00:00.000Z'',
      appName = ''Unknown'', windowTitle = [],
      filePath = ''/data/recordings/screenshots/1970-01-01T00-00-00-000Z.jpg'',
      thumbnailPath = ''/data/recordings/thumbnails/1970-01-01T00-00-00-000Z.jpg'',
      durationSeconds = 0\<rparr>"

definition fullSys :: sys where
  "fullSys = demoSys\<lparr>arrays := (arrays demoSys)(2 := replicate 50 demoRecord)\<rparr>"

definition demoConfig :: Config where
  "demoConfig = \<lparr>token = ''t'', api_url = ''https://api'', subject_name = ''subject'',
                  project_name = ''project'', google_drive = None\<rparr>"

definition autoEnv :: "ApiResponse outcome \<Rightarrow> AutoEnv" where
  "autoEnv reply =
     \<lparr>tStatsFlush = 3000000, tStatsEnd = 3000000, tExportFlush = 3000000,
      tExportEnd = 3000000, tStop = 3000001, tStart = 3000002, tNotice = 3000003,
      net = \<lparr>zipArchive = Resolved (), driveNet = exNet 1000, unlinkZip = Resolved (),
              apiReply = reply\<rparr>,
      recordingsDir = ''/data/recordings'', mkdirOk = True, importsOk = True\<rparr>"

definition finalEnv :: "ApiResponse outcome \<Rightarrow> FinalEnv" where
  "finalEnv reply =
     \<lparr>fExportFlush = 3000000, fExportEnd = 3000000, fStop = 3000001,
      fNet = \<lparr>zipArchive = Resolved (), driveNet = exNet 1000, unlinkZip = Resolved (),
               apiReply = reply\<rparr>\<rparr>"

definition stopSignal :: "StatusResponse outcome" where
  "stopSignal =
     Resolved \<lparr>statusOk = True,
               statusJson = Resolved \<lparr>should_stop = True, statusMessage = ''done''\<rparr>\<rparr>"

definition apiAccepts :: "ApiResponse outcome" where
  "apiAccepts =
     Resolved \<lparr>apiOk = True, apiStatus = ''200'', apiText = [],
               apiJson = Resolved \<lparr>success' = True, message = ''ok''\<rparr>\<rparr>"

definition apiRefuses :: "ApiResponse outcome" where
  "apiRefuses =
     Resolved \<lparr>apiOk = True, apiStatus = ''200'', apiText = [],
               apiJson = Resolved \<lparr>success' = False, message = ''quota''\<rparr>\<rparr>"

section \<open>Properties\<close>

lemma self_upd [simp]: "self (upd this f w) this = f (self w this)"
  by (simp add: self_def upd_def)

lemma self_logLine [simp]: "self (logLine s w) this = self w this"
  by (simp add: self_def logLine_def)

subsection \<open>Auxiliary facts\<close>

lemma foldl_plus: "foldl (\<lambda>a b. a + b) (a::int) xs = a + sum_list xs"
  by (induction xs arbitrary: a) auto

lemma usageTotal_sum: "usageTotal u = sum_list (map snd u)"
  by (simp add: usageTotal_def foldl_plus)

lemma usageOr0_Nil [simp]: "usageOr0 [] k = 0"
  by (simp add: usageOr0_def)

lemma usageOr0_Cons [simp]: "usageOr0 ((k', v) # u) k = (if k' = k then v else usageOr0 u k)"
  by (simp add: usageOr0_def)

lemma usageOr0_setUsage: "usageOr0 (setUsage k v u) k' = (if k' = k then v else usageOr0 u k')"
  by (induction u) auto

lemma usageTotal_setUsage: "usageTotal (setUsage k (usageOr0 u k + d) u) = usageTotal u + d"
  by (induction u) (auto simp: usageTotal_sum)

lemma startsWith_iff: "startsWith s sub \<longleftrightarrow> (\<exists>suf. s = sub @ suf)"
  by (induction s sub rule: startsWith.induct) auto

lemma includes'_iff: "includes' s sub \<longleftrightarrow> (\<exists>pre suf. s = pre @ sub @ suf)"
proof (induction s)
  case Nil
  then show ?case by auto
next
  case (Cons d s)
  show ?case
  proof
    assume "includes' (d # s) sub"
    then consider "startsWith (d # s) sub" | "includes' s sub" by auto
    then show "\<exists>pre suf. d # s = pre @ sub @ suf"
    proof cases
      case 1
      then obtain suf where "d # s = sub @ suf" by (auto simp: startsWith_iff)
      then have "d # s = [] @ sub @ suf" by simp
      then show ?thesis by blast
    next
      case 2
      then obtain pre suf where "s = pre @ sub @ suf" using Cons.IH by auto
      then have "d # s = (d # pre) @ sub @ suf" by simp
      then show ?thesis by blast
    qed
  next
    assume "\<exists>pre suf. d # s = pre @ sub @ suf"
    then obtain pre suf where eq: "d # s = pre @ sub @ suf" by blast
    show "includes' (d # s) sub"
    proof (cases pre)
      case Nil
      with eq have "startsWith (d # s) sub" by (auto simp: startsWith_iff)
      then show ?thesis by simp
    next
      case (Cons p pre')
      with eq have "s = pre' @ sub @ suf" by simp
      then have "includes' s sub" using Cons.IH by blast
      then show ?thesis by simp
    qed
  qed
qed

lemma basename_no_separator: "CHR ''/'' \<notin> set (basename p)"
proof -
  have "\<forall>c \<in> set (takeWhile (\<lambda>c. c \<noteq> CHR ''/'') xs). c \<noteq> CHR ''/''" for xs
    by (auto dest: set_takeWhileD)
  then show ?thesis unfolding basename_def by auto
qed

lemma updateWindowDuration_None:
  "lastWindowInfo r = None \<Longrightarrow> updateWindowDuration t r = r"
  by (simp add: updateWindowDuration_def)

lemma updateWindowDuration_Some:
  "lastWindowInfo r = Some lw \<Longrightarrow>
   updateWindowDuration t r =
     r\<lparr>appUsage := setUsage (app lw) (usageOr0 (appUsage r) (app lw) + (t - since lw) div 1000)
                      (appUsage r)\<rparr>"
  by (simp add: updateWindowDuration_def Let_def)

lemma updateWindowDuration_fields [simp]:
  "lastWindowInfo (updateWindowDuration t r) = lastWindowInfo r"
  "recording (updateWindowDuration t r) = recording r"
  "paused (updateWindowDuration t r) = paused r"
  "screenshots (updateWindowDuration t r) = screenshots r"
  "options (updateWindowDuration t r) = options r"
  "startTime (updateWindowDuration t r) = startTime r"
  "timer (updateWindowDuration t r) = timer r"
  by (simp_all add: updateWindowDuration_def Let_def split: option.splits)

lemma getStats_total:
  "totalActiveSeconds (fst (getStats this t t' w)) =
     usageTotal (appUsage (updateWindowDuration t (objects w this)))"
  by (simp add: getStats_def Let_def self_def upd_def)

lemma getStats_object:
  "objects (snd (getStats this t t' w)) this = updateWindowDuration t (objects w this)"
  by (simp add: getStats_def Let_def self_def upd_def)

text \<open>
  The next two facts are about the flush itself. With a window open, a second read adds
  the whole interval from the anchor again, because the flush does not move \<^verbatim>\<open>since\<close>;
  without one, two reads agree. No state that the process can reach has a window open
  (\<open>reachable_idle\<close> below).
\<close>

lemma getStats_reaccrues:
  assumes "lastWindowInfo (objects w this) = Some lw"
      and "app lw \<notin> set objectPrototypeMembers"
  shows "totalActiveSeconds (fst (getStats this t2 t2' (snd (getStats this t1 t1' w)))) =
         totalActiveSeconds (fst (getStats this t1 t1' w)) + (t2 - since lw) div 1000"
  using assms
  by (simp add: getStats_total getStats_object updateWindowDuration_Some usageTotal_setUsage)

lemma getStats_no_window_idempotent:
  assumes "lastWindowInfo (objects w this) = None"
  shows "totalActiveSeconds (fst (getStats this t2 t2' (snd (getStats this t1 t1' w)))) =
         totalActiveSeconds (fst (getStats this t1 t1' w))"
  using assms
  by (simp add: getStats_total getStats_object updateWindowDuration_None)

subsection \<open>Claims\<close>

text \<open>
  C9. \<^verbatim>\<open>isRecording()\<close> is \<^verbatim>\<open>recording && !paused\<close>. After \<^verbatim>\<open>pause()\<close> it is
  false although \<^verbatim>\<open>recording\<close> keeps its value (the session is not stopped), and after
  \<^verbatim>\<open>stop()\<close> it is false as well: the method gives the same answer for a paused and
  for a stopped session.
\<close>

theorem isRecording_paused_like_stopped:
  "isRecording this w = (recording (objects w this) \<and> \<not> paused (objects w this))
   \<and> isRecording this (pause this t w) = False
   \<and> recording (objects (pause this t w) this) = recording (objects w this)
   \<and> isRecording this (stop this t' w) = False
   \<and> isRecording this (pause this t w) = isRecording this (stop this t' w)
   \<and> isRecording this (resume this (pause this t w)) = recording (objects w this)"
  by (simp add: isRecording_def pause_def stop_def resume_def updateWindowDuration_def
      self_def upd_def logLine_def Let_def split: option.splits)

text \<open>The definitions that evaluate the concrete session.\<close>

lemmas evalDefs = run_def demoSys_def newRecorder_def demoOptions_def emptySys_def start_def
  captureResolved_def captureWith_def resolveWindow_def isExcludedApp_def toLowerCase_def
  toLowerChar_def envAt_def Let_def updateWindowDuration_def self_def upd_def logLine_def
  scheduleCapture_def push_def pathJoin_def fileNameOf_def getStats_def stop_def pause_def
  resume_def blankRecorder_def

lemma pause_object:
  "objects (pause this t w) this = updateWindowDuration t ((objects w this)\<lparr>paused := True\<rparr>)"
  by (simp add: pause_def Let_def self_def upd_def logLine_def)


text \<open>
  C5, as stated, fails: on a recorder stopped at 5 s, a read at 6 s does not report the
  stop time, and a read at 7 s reports another value than the read at 6 s.
\<close>

theorem endTime_fresh_counterexample:
  "endTime (fst (getStats 0 6000 6000 (stop 0 5000 demoSys))) \<noteq> Some 5000
   \<and> endTime (fst (getStats 0 7000 7000 (snd (getStats 0 6000 6000 (stop 0 5000 demoSys)))))
       \<noteq> endTime (fst (getStats 0 6000 6000 (stop 0 5000 demoSys)))"
  by (simp add: evalDefs)

text \<open>
  C5, amended. \<^verbatim>\<open>endTime\<close> is null exactly while \<^verbatim>\<open>recording\<close> is true. When it is
  false, and so after \<^verbatim>\<open>stop()\<close>, every \<^verbatim>\<open>getStats()\<close> returns the clock reading of
  that very call: no stop time is stored.
\<close>

theorem endTime_is_time_of_read:
  "endTime (fst (getStats this t t' w)) = (if recording (objects w this) then None else Some t')
   \<and> endTime (fst (getStats this t t' (stop this ts w))) = Some t'
   \<and> endTime (fst (getStats this t2 t2' (snd (getStats this t1 t1' (stop this ts w))))) = Some t2'"
  by (simp add: getStats_def stop_def Let_def self_def upd_def logLine_def)


text \<open>
  C6. Unknown-identity skip. A capture cycle whose resolved identity is the sentinel
  leaves every \<^verbatim>\<open>Recorder\<close> object as it was, so \<^verbatim>\<open>lastWindowInfo\<close> is neither
  created nor changed and no usage changes; the screenshot capability is still called,
  and when it and the two writes succeed the record is appended to the screenshot list.
\<close>

theorem unknown_identity_skips_bookkeeping:
  "objects (captureResolved this env ''Unknown'' wt w) = objects w
   \<and> lastWindowInfo (objects (captureResolved this env ''Unknown'' wt w) this)
       = lastWindowInfo (objects w this)
   \<and> appUsage (objects (captureResolved this env ''Unknown'' wt w) this)
       = appUsage (objects w this)
   \<and> shotsTaken (captureResolved this env ''Unknown'' wt w) = Suc (shotsTaken w)
   \<and> (shot env = Resolved img \<and> writeFull env \<and> writeThumb env \<longrightarrow>
        arrays (captureResolved this env ''Unknown'' wt w) (screenshots (objects w this))
          = arrays w (screenshots (objects w this)) @
            [\<lparr>id' = uuid env, timestamp = isoStamp env, appName = ''Unknown'',
              windowTitle = wt,
              filePath = pathJoin (dataDir (options (objects w this))) ''screenshots''
                           (fileNameOf (isoStamp env)),
              thumbnailPath = pathJoin (dataDir (options (objects w this))) ''thumbnails''
                           (fileNameOf (isoStamp env)),
              durationSeconds = 0\<rparr>])"
  by (simp add: captureResolved_def Let_def self_def logLine_def push_def
      split: outcome.splits)

theorem unknown_identity_skips_bookkeeping_witness:
  "objects (captureResolved 0 (envAt 60000) ''Unknown'' [] demoSys) = objects demoSys
   \<and> length (arrays (captureResolved 0 (envAt 60000) ''Unknown'' [] demoSys) 2) = 1"
proof -
  have a: "shot (envAt 60000) = Resolved ''jpg'' \<and> writeFull (envAt 60000)
           \<and> writeThumb (envAt 60000)"
    by (simp add: envAt_def)
  have s: "screenshots (objects demoSys 0) = 2" by (simp add: evalDefs)
  have n: "arrays demoSys 2 = []" by (simp add: evalDefs)
  show ?thesis
    using a unknown_identity_skips_bookkeeping
            [of 0 "envAt 60000" "[]" demoSys "''jpg''"]
    by (simp add: s n)
qed

lemma redact_paths:
  "CHR ''/'' \<notin> set (filePath (redact s)) \<and> CHR ''/'' \<notin> set (thumbnailPath (redact s))
   \<and> id' (redact s) = id' s \<and> timestamp (redact s) = timestamp s
   \<and> appName (redact s) = appName s \<and> windowTitle (redact s) = windowTitle s
   \<and> durationSeconds (redact s) = durationSeconds s"
  by (simp add: redact_def basename_no_separator)

lemma basename_pathJoin:
  assumes "CHR ''/'' \<notin> set f" and "f \<noteq> []"
  shows "basename (pathJoin d m f) = f"
proof -
  have "rev (pathJoin d m f) = rev f @ (CHR ''/'' # rev (d @ ''/'' @ m))"
    by (simp add: pathJoin_def)
  moreover have "dropWhile (\<lambda>c. c = CHR ''/'') (rev f @ ys) = rev f @ ys" for ys
    using assms by (cases "rev f") auto
  moreover have "takeWhile (\<lambda>c. c \<noteq> CHR ''/'') (rev f @ (CHR ''/'' # ys)) = rev f" for ys
    using assms(1) by (subst takeWhile_append2) auto
  ultimately show ?thesis by (simp add: basename_def)
qed

text \<open>
  C10. Redaction applies to \<^verbatim>\<open>getScreenshots()\<close> only. It returns a new array (a
  reference that was not allocated before, so not the internal one) whose records are
  the internal ones with \<^verbatim>\<open>filePath\<close> and \<^verbatim>\<open>thumbnailPath\<close> replaced by their
  basenames, which hold no separator; the internal array is unchanged.
  \<^verbatim>\<open>exportData()\<close> returns the internal reference itself, so the records read through
  it are the internal ones with their full paths, and the array is live: a record that
  a later capture appends is seen through the exported reference, and not through the
  array that \<^verbatim>\<open>getScreenshots()\<close> returned.
\<close>

theorem getScreenshots_redacts_exportData_aliases:
  assumes "screenshots (objects w this) < nextRef w"
      and "g = fst (getScreenshots this w)"
      and "wg = snd (getScreenshots this w)"
      and "d = fst (exportData this t t' wg)"
      and "wd = snd (exportData this t t' wg)"
      and "shot env = Resolved img" and "writeFull env" and "writeThumb env"
      and "w' = captureResolved this env ''Unknown'' wt wd"
  shows "arrays wg g = map redact (arrays w (screenshots (objects w this)))
       \<and> (\<forall>s \<in> set (arrays wg g).
             CHR ''/'' \<notin> set (filePath s) \<and> CHR ''/'' \<notin> set (thumbnailPath s))
       \<and> g \<noteq> screenshots (objects w this)
       \<and> arrays wg (screenshots (objects w this)) = arrays w (screenshots (objects w this))
       \<and> screenshots' d = screenshots (objects w this)
       \<and> arrays wd (screenshots' d) = arrays w (screenshots (objects w this))
       \<and> arrays w' (screenshots' d)
           = arrays w (screenshots (objects w this)) @
             [\<lparr>id' = uuid env, timestamp = isoStamp env, appName = ''Unknown'',
               windowTitle = wt,
               filePath = pathJoin (dataDir (options (objects w this))) ''screenshots''
                            (fileNameOf (isoStamp env)),
               thumbnailPath = pathJoin (dataDir (options (objects w this))) ''thumbnails''
                            (fileNameOf (isoStamp env)),
               durationSeconds = 0\<rparr>]
       \<and> arrays w' g = arrays wg g"
proof -
  let ?a = "screenshots (objects w this)"
  have g: "g = nextRef w" using assms(2) by (simp add: getScreenshots_def Let_def)
  have ne: "g \<noteq> ?a" using assms(1) g by simp
  have wg: "wg = w\<lparr>arrays := (arrays w)(g := map redact (arrays w ?a)), nextRef := Suc g\<rparr>"
    using assms(3) g by (simp add: getScreenshots_def Let_def self_def)
  have og: "objects wg = objects w" by (simp add: wg)
  have wd_arr: "arrays wd = arrays wg"
    using assms(5) by (simp add: exportData_def getStats_def Let_def upd_def)
  have wd_obj: "screenshots (objects wd this) = ?a \<and> options (objects wd this) = options (objects w this)"
    using assms(5) og by (simp add: exportData_def getStats_def Let_def upd_def self_def)
  have d: "screenshots' d = ?a"
    using assms(4) og by (simp add: exportData_def getStats_def Let_def upd_def self_def)
  have c1: "arrays wg g = map redact (arrays w ?a)" by (simp add: wg)
  have c2: "\<forall>s \<in> set (arrays wg g).
             CHR ''/'' \<notin> set (filePath s) \<and> CHR ''/'' \<notin> set (thumbnailPath s)"
    by (auto simp: c1 redact_paths)
  have c4: "arrays wg ?a = arrays w ?a" using ne by (simp add: wg)
  have cap: "arrays w' = (arrays wd)(?a := arrays wd ?a @
       [\<lparr>id' = uuid env, timestamp = isoStamp env, appName = ''Unknown'',
               windowTitle = wt,
               filePath = pathJoin (dataDir (options (objects w this))) ''screenshots''
                            (fileNameOf (isoStamp env)),
               thumbnailPath = pathJoin (dataDir (options (objects w this))) ''thumbnails''
                            (fileNameOf (isoStamp env)),
               durationSeconds = 0\<rparr>])"
    using assms(6,7,8) wd_obj
    by (simp add: assms(9) captureResolved_def Let_def self_def logLine_def push_def)
  show ?thesis
    using ne by (simp add: c1 c2 c4 d wd_arr cap)
qed

theorem getScreenshots_redacts_exportData_aliases_witness:
  "map filePath (arrays (snd (getScreenshots 0 (captureResolved 0 (envAt 0) ''Unknown'' [] demoSys)))
                   (fst (getScreenshots 0 (captureResolved 0 (envAt 0) ''Unknown'' [] demoSys))))
     = [''1970-01-01T00-00-00-000Z.jpg'']
   \<and> map filePath (arrays (snd (exportData 0 1000 1000
          (snd (getScreenshots 0 (captureResolved 0 (envAt 0) ''Unknown'' [] demoSys)))))
        (screenshots' (fst (exportData 0 1000 1000
          (snd (getScreenshots 0 (captureResolved 0 (envAt 0) ''Unknown'' [] demoSys)))))))
     = [''/data/recordings/screenshots/1970-01-01T00-00-00-000Z.jpg'']"
proof -
  let ?w = "captureResolved 0 (envAt 0) ''Unknown'' [] demoSys"
  have a: "screenshots (objects ?w 0) < nextRef ?w" by (simp add: evalDefs)
  have e: "shot (envAt 1) = Resolved ''jpg''" "writeFull (envAt 1)" "writeThumb (envAt 1)"
    by (simp_all add: envAt_def)
  have arr: "arrays ?w (screenshots (objects ?w 0)) =
      [\<lparr>id' = ''00000000-0000-4000-8000-000000000000'',
        timestamp = ''1970-01-01T00:00:00.000Z'', appName = ''Unknown'', windowTitle = [],
        filePath = ''/data/recordings/screenshots/1970-01-01T00-00-00-000Z.jpg'',
        thumbnailPath = ''/data/recordings/thumbnails/1970-01-01T00-00-00-000Z.jpg'',
        durationSeconds = 0\<rparr>]"
    by (simp add: evalDefs)
  note th = getScreenshots_redacts_exportData_aliases
              [OF a refl refl refl refl e refl, where t = 1000 and t' = 1000 and wt = "[]"]
  note c1 = th [THEN conjunct1]
  note c6 = th [THEN conjunct2, THEN conjunct2, THEN conjunct2, THEN conjunct2,
                THEN conjunct2, THEN conjunct1]
  show ?thesis
    by (simp add: c1 c6 arr redact_def basename_def)
qed

text \<open>
  C8. Size-threshold transport selection. Once the token, the folders and the archive
  are there, an archive of fewer than \<open>5 * 1024 * 1024\<close> bytes issues the single
  multipart request and nothing else; at or above the threshold the first request is
  the resumable initiation and no multipart request is issued, and the streaming
  request follows when the initiation gave an upload address. A successful result of
  either path has the same form: \<^verbatim>\<open>success\<close> true, no \<^verbatim>\<open>error\<close>, and \<^verbatim>\<open>fileId\<close> and
  \<^verbatim>\<open>webViewLink\<close> taken from the body of the last reply.
\<close>

theorem uploadZip_size_threshold:
  assumes "accessToken nt = Resolved tok"
      and "projectFolder nt = Resolved pf"
      and "(if subj \<noteq> [] then subjectFolder nt else Resolved pf) = Resolved tf"
      and "zipFile nt = Resolved n"
  shows "(n < 5 * 1024 * 1024 \<longrightarrow> snd (uploadZip nt subj) = [MultipartPost])
       \<and> (5 * 1024 * 1024 \<le> n \<longrightarrow>
            take 1 (snd (uploadZip nt subj)) = [ResumableInit]
            \<and> MultipartPost \<notin> set (snd (uploadZip nt subj)))
       \<and> (n < 5 * 1024 * 1024 \<and> multipartReply nt = Resolved resp \<and> ok resp
            \<and> bodyJson resp = Resolved j \<longrightarrow>
            fst (uploadZip nt subj)
              = \<lparr>success = True, fileId = fid j, webViewLink = link j, error = None\<rparr>)
       \<and> (5 * 1024 * 1024 \<le> n \<and> initReply nt = Resolved ir \<and> ok ir
            \<and> location ir = Some url \<and> url \<noteq> [] \<and> putReply nt = Resolved resp \<and> ok resp
            \<and> bodyJson resp = Resolved j \<longrightarrow>
            fst (uploadZip nt subj)
              = \<lparr>success = True, fileId = fid j, webViewLink = link j, error = None\<rparr>
            \<and> snd (uploadZip nt subj) = [ResumableInit, ResumablePut url])
       \<and> (success (fst (uploadZip nt subj)) \<longrightarrow>
            (\<exists>j'::DriveFile. fst (uploadZip nt subj)
                    = \<lparr>success = True, fileId = fid j', webViewLink = link j', error = None\<rparr>))"
proof -
  have pre: "uploadZip nt subj =
     (if n < 5 * 1024 * 1024
          then
            (case multipartReply nt of
               Rejected e \<Rightarrow> failed e [MultipartPost]
             | Resolved response \<Rightarrow>
                 if \<not> ok response
                 then failed (''Error: Upload failed: '' @ bodyText response) [MultipartPost]
                 else
                   (case bodyJson response of
                      Rejected e \<Rightarrow> failed e [MultipartPost]
                    | Resolved result \<Rightarrow>
                        (\<lparr>success = True, fileId = fid result, webViewLink = link result,
                          error = None\<rparr>, [MultipartPost])))
          else
            (case initReply nt of
               Rejected e \<Rightarrow> failed e [ResumableInit]
             | Resolved initResponse \<Rightarrow>
                 if \<not> ok initResponse
                 then failed (''Error: Upload initiation failed: '' @ bodyText initResponse)
                        [ResumableInit]
                 else
                   (case location initResponse of
                      None \<Rightarrow> failed ''Error: No upload URL received'' [ResumableInit]
                    | Some uploadUrl \<Rightarrow>
                        if uploadUrl = []
                        then failed ''Error: No upload URL received'' [ResumableInit]
                        else
                          (case putReply nt of
                             Rejected e \<Rightarrow> failed e [ResumableInit, ResumablePut uploadUrl]
                           | Resolved uploadResponse \<Rightarrow>
                               if \<not> ok uploadResponse
                               then failed (''Error: File upload failed: ''
                                              @ bodyText uploadResponse)
                                      [ResumableInit, ResumablePut uploadUrl]
                               else
                                 (case bodyJson uploadResponse of
                                    Rejected e \<Rightarrow>
                                      failed e [ResumableInit, ResumablePut uploadUrl]
                                  | Resolved result \<Rightarrow>
                                      (\<lparr>success = True, fileId = fid result,
                                        webViewLink = link result, error = None\<rparr>,
                                       [ResumableInit, ResumablePut uploadUrl]))))))"
    using assms unfolding uploadZip_def by simp
  have small: "n < 5 * 1024 * 1024 \<longrightarrow> snd (uploadZip nt subj) = [MultipartPost]"
    by (simp add: pre failed_def split: outcome.splits)
  have large: "5 * 1024 * 1024 \<le> n \<longrightarrow>
            take 1 (snd (uploadZip nt subj)) = [ResumableInit]
            \<and> MultipartPost \<notin> set (snd (uploadZip nt subj))"
    by (simp add: pre failed_def split: outcome.splits option.splits)
  have okS: "n < 5 * 1024 * 1024 \<and> multipartReply nt = Resolved resp \<and> ok resp
            \<and> bodyJson resp = Resolved j \<longrightarrow>
            fst (uploadZip nt subj)
              = \<lparr>success = True, fileId = fid j, webViewLink = link j, error = None\<rparr>"
    by (simp add: pre)
  have okL: "5 * 1024 * 1024 \<le> n \<and> initReply nt = Resolved ir \<and> ok ir
            \<and> location ir = Some url \<and> url \<noteq> [] \<and> putReply nt = Resolved resp \<and> ok resp
            \<and> bodyJson resp = Resolved j \<longrightarrow>
            fst (uploadZip nt subj)
              = \<lparr>success = True, fileId = fid j, webViewLink = link j, error = None\<rparr>
            \<and> snd (uploadZip nt subj) = [ResumableInit, ResumablePut url]"
    by (simp add: pre)
  have shape: "success (fst (uploadZip nt subj)) \<longrightarrow>
            (\<exists>j'::DriveFile. fst (uploadZip nt subj)
                    = \<lparr>success = True, fileId = fid j', webViewLink = link j', error = None\<rparr>)"
  proof -
    have ex: "\<exists>j'::DriveFile. fid x = fid j' \<and> link x = link j'" for x :: DriveFile
      by (rule exI [of _ x]) simp
    show ?thesis
      by (auto simp: pre failed_def ex split: outcome.splits option.splits if_splits)
  qed
  show ?thesis using small large okS okL shape by blast
qed

theorem uploadZip_size_threshold_witness:
  "uploadZip (exNet 5242879) ''subject''
     = (\<lparr>success = True, fileId = Some ''f1'', webViewLink = Some ''https://view'',
         error = None\<rparr>, [MultipartPost])
   \<and> uploadZip (exNet 5242880) ''subject''
     = (\<lparr>success = True, fileId = Some ''f1'', webViewLink = Some ''https://view'',
         error = None\<rparr>, [ResumableInit, ResumablePut ''https://upload''])"
proof -
  have s: "(5242879::nat) < 5 * 1024 * 1024 \<and> multipartReply (exNet 5242879) = Resolved exResp
           \<and> ok exResp
           \<and> bodyJson exResp = Resolved \<lparr>fid = Some ''f1'', link = Some ''https://view''\<rparr>"
    by (simp add: exNet_def exResp_def)
  have l: "5 * 1024 * 1024 \<le> (5242880::nat) \<and> initReply (exNet 5242880) = Resolved exResp
           \<and> ok exResp \<and> location exResp = Some ''https://upload'' \<and> ''https://upload'' \<noteq> []
           \<and> putReply (exNet 5242880) = Resolved exResp \<and> ok exResp
           \<and> bodyJson exResp = Resolved \<lparr>fid = Some ''f1'', link = Some ''https://view''\<rparr>"
    by (simp add: exNet_def exResp_def)
  have h: "accessToken (exNet m) = Resolved ''tok''" "projectFolder (exNet m) = Resolved ''p''"
    "(if ''subject'' \<noteq> [] then subjectFolder (exNet m) else Resolved ''p'') = Resolved ''s''"
    "zipFile (exNet m) = Resolved m" for m
    by (simp_all add: exNet_def)
  note small = uploadZip_size_threshold [OF h, where n = 5242879 and resp = exResp
      and j = "\<lparr>fid = Some ''f1'', link = Some ''https://view''\<rparr>"]
  note large = uploadZip_size_threshold [OF h, where n = 5242880 and resp = exResp
      and ir = exResp and url = "''https://upload''"
      and j = "\<lparr>fid = Some ''f1'', link = Some ''https://view''\<rparr>"]
  have a: "snd (uploadZip (exNet 5242879) ''subject'') = [MultipartPost]"
    using small [THEN conjunct1] by simp
  have b: "fst (uploadZip (exNet 5242879) ''subject'')
       = \<lparr>success = True, fileId = Some ''f1'', webViewLink = Some ''https://view'', error = None\<rparr>"
    using small [THEN conjunct2, THEN conjunct2, THEN conjunct1] s by simp
  have c: "fst (uploadZip (exNet 5242880) ''subject'')
       = \<lparr>success = True, fileId = Some ''f1'', webViewLink = Some ''https://view'', error = None\<rparr>
      \<and> snd (uploadZip (exNet 5242880) ''subject'') = [ResumableInit, ResumablePut ''https://upload'']"
    using large [THEN conjunct2, THEN conjunct2, THEN conjunct2, THEN conjunct1] l by simp
  show ?thesis using a b c by (simp add: prod_eq_iff)
qed

lemma getStats_snd: "snd (getStats this t t' w) = upd this (updateWindowDuration t) w"
  by (simp add: getStats_def Let_def)

lemma getStats_count:
  "totalScreenshots (fst (getStats this t t' w)) = length (arrays w (screenshots (objects w this)))"
  by (simp add: getStats_def Let_def self_def upd_def)

lemma exportData_snd: "snd (exportData this t t' w) = upd this (updateWindowDuration t) w"
  by (simp add: exportData_def getStats_snd Let_def)

lemma upd_frame [simp]:
  "arrays (upd this f w) = arrays w"
  "nextRef (upd this f w) = nextRef w"
  "recorder (upd this f w) = recorder w"
  "disk (upd this f w) = disk w"
  "objects (upd this f w) this = f (objects w this)"
  by (simp_all add: upd_def)

lemma reportFailure_frame [simp]:
  "arrays (reportFailure env e n w) = arrays w"
  "nextRef (reportFailure env e n w) = nextRef w"
  "recorder (reportFailure env e n w) = recorder w"
  "objects (reportFailure env e n w) = objects w"
  "disk (reportFailure env e n w) = disk w"
  by (simp_all add: reportFailure_def notifyUserFailure_def notifyUploadFailure_def)

lemma upload_ignores_data: "upload cfg nt d = upload cfg nt d'"
  by (simp add: upload_def)

lemma autoUpload_retains_or_retires:
  assumes "recorder w = Some this"
      and "this < nextRef w"
      and "screenshots (objects w this) < nextRef w"
      and "w' = runAutoUploadCheck (Some cfg) env w"
  shows "((\<forall>d r. upload cfg (net env) d = Resolved r \<longrightarrow> \<not> success' r) \<longrightarrow>
            recorder w' = Some this
            \<and> arrays w' = arrays w
            \<and> screenshots (objects w' this) = screenshots (objects w this)
            \<and> recording (objects w' this) = recording (objects w this)
            \<and> timer (objects w' this) = timer (objects w this)
            \<and> nextRef w' = nextRef w)
       \<and> ((\<exists>d r. upload cfg (net env) d = Resolved r \<and> success' r)
            \<and> AUTO_UPLOAD_THRESHOLD \<le> length (arrays w (screenshots (objects w this)))
            \<and> mkdirOk env \<and> importsOk env \<longrightarrow>
            recording (objects w' this) = False
            \<and> timer (objects w' this) = False
            \<and> recorder w' = Some (nextRef w)
            \<and> nextRef w \<noteq> this
            \<and> recording (objects w' (nextRef w)) = True
            \<and> startTime (objects w' (nextRef w)) = Some (tStart env)
            \<and> appUsage (objects w' (nextRef w)) = []
            \<and> arrays w' (screenshots (objects w' (nextRef w))) = []
            \<and> arrays w' (screenshots (objects w this)) = arrays w (screenshots (objects w this)))
       \<and> (recorder w' \<noteq> recorder w \<or> recording (objects w' this) \<noteq> recording (objects w this)
            \<longrightarrow> (\<exists>d r. upload cfg (net env) d = Resolved r \<and> success' r))"
proof -
  let ?w1 = "upd this (updateWindowDuration (tStatsFlush env)) w"
  let ?w2 = "upd this (updateWindowDuration (tExportFlush env)) ?w1"
  let ?d = "fst (exportData this (tExportFlush env) (tExportEnd env) ?w1)"
  let ?n = "length (arrays w (screenshots (objects w this)))"
  have run: "w' =
     (if ?n < AUTO_UPLOAD_THRESHOLD then ?w1
      else case upload cfg (net env) ?d of
             Rejected e \<Rightarrow> reportFailure env e ?n ?w2
           | Resolved result \<Rightarrow>
               if success' result
               then
                 (let w3 = stop this (tStop env) ?w2 in
                  case newRecorder \<lparr>intervalMsArg = 60000, dataDirArg = recordingsDir env,
                                      excludedAppsArg = None\<rparr> (mkdirOk env) w3 of
                    None \<Rightarrow> reportFailure env ''mkdir'' ?n w3
                  | Some (fresh, w4) \<Rightarrow>
                      (let w5 = w4\<lparr>recorder := Some fresh\<rparr> in
                       case start fresh (importsOk env) (tStart env) w5 of
                         None \<Rightarrow> reportFailure env ''import'' ?n w5
                       | Some w6 \<Rightarrow> w6))
               else reportFailure env (message result) ?n ?w2)"
    using assms(1)
    by (simp add: assms(4) runAutoUploadCheck_def Let_def getStats_snd getStats_count
        exportData_snd cong: outcome.case_cong option.case_cong if_cong)
  have fail: "(\<forall>d r. upload cfg (net env) d = Resolved r \<longrightarrow> \<not> success' r) \<longrightarrow>
            recorder w' = Some this
            \<and> arrays w' = arrays w
            \<and> screenshots (objects w' this) = screenshots (objects w this)
            \<and> recording (objects w' this) = recording (objects w this)
            \<and> timer (objects w' this) = timer (objects w this)
            \<and> nextRef w' = nextRef w"
    using assms(1) by (auto simp: run split: outcome.splits)
  have succ: "(\<exists>d r. upload cfg (net env) d = Resolved r \<and> success' r)
            \<and> AUTO_UPLOAD_THRESHOLD \<le> ?n \<and> mkdirOk env \<and> importsOk env \<longrightarrow>
            recording (objects w' this) = False
            \<and> timer (objects w' this) = False
            \<and> recorder w' = Some (nextRef w)
            \<and> nextRef w \<noteq> this
            \<and> recording (objects w' (nextRef w)) = True
            \<and> startTime (objects w' (nextRef w)) = Some (tStart env)
            \<and> appUsage (objects w' (nextRef w)) = []
            \<and> arrays w' (screenshots (objects w' (nextRef w))) = []
            \<and> arrays w' (screenshots (objects w this)) = arrays w (screenshots (objects w this))"
  proof (intro impI)
    assume h: "(\<exists>d r. upload cfg (net env) d = Resolved r \<and> success' r)
            \<and> AUTO_UPLOAD_THRESHOLD \<le> ?n \<and> mkdirOk env \<and> importsOk env"
    then obtain d r where u: "upload cfg (net env) d = Resolved r" "success' r" by blast
    then have u': "upload cfg (net env) ?d = Resolved r"
      using upload_ignores_data [of cfg "net env" ?d d] by simp
    have e: "w' =
        (let w3 = stop this (tStop env) ?w2 in
         case newRecorder \<lparr>intervalMsArg = 60000, dataDirArg = recordingsDir env,
                             excludedAppsArg = None\<rparr> (mkdirOk env) w3 of
           None \<Rightarrow> reportFailure env ''mkdir'' ?n w3
         | Some (fresh, w4) \<Rightarrow>
             (let w5 = w4\<lparr>recorder := Some fresh\<rparr> in
              case start fresh (importsOk env) (tStart env) w5 of
                None \<Rightarrow> reportFailure env ''import'' ?n w5
              | Some w6 \<Rightarrow> w6))"
      using h u(2) by (simp add: run u')
    show "recording (objects w' this) = False
            \<and> timer (objects w' this) = False
            \<and> recorder w' = Some (nextRef w)
            \<and> nextRef w \<noteq> this
            \<and> recording (objects w' (nextRef w)) = True
            \<and> startTime (objects w' (nextRef w)) = Some (tStart env)
            \<and> appUsage (objects w' (nextRef w)) = []
            \<and> arrays w' (screenshots (objects w' (nextRef w))) = []
            \<and> arrays w' (screenshots (objects w this)) = arrays w (screenshots (objects w this))"
      using h assms(2,3)
      by (simp add: e Let_def newRecorder_def stop_def start_def scheduleCapture_def
          self_def logLine_def upd_def)
  qed
  have only: "recorder w' \<noteq> recorder w \<or> recording (objects w' this) \<noteq> recording (objects w this)
            \<longrightarrow> (\<exists>d r. upload cfg (net env) d = Resolved r \<and> success' r)"
    using fail assms(1) by auto
  show ?thesis using fail succ only by blast
qed

text \<open>
  While paused, the timer callback re-arms and does nothing else: no screenshot, no
  file, no record, no accounting.
\<close>

lemma tick_while_paused:
  assumes "paused (objects w this)"
  shows "arrays (tickWith flag this win env w) = arrays w
       \<and> disk (tickWith flag this win env w) = disk w
       \<and> shotsTaken (tickWith flag this win env w) = shotsTaken w
       \<and> appUsage (objects (tickWith flag this win env w) this) = appUsage (objects w this)
       \<and> lastWindowInfo (objects (tickWith flag this win env w) this)
           = lastWindowInfo (objects w this)"
  using assms by (simp add: tickWith_def scheduleCapture_def self_def upd_def Let_def)

subsection \<open>No reachable state has an open window\<close>





lemma idle_logLine: "idle (logLine s w) = idle w"
  by (simp add: idle_def logLine_def)

































lemma stop_effect:
  "recording (objects (stop this t v) this) = False
   \<and> timer (objects (stop this t v) this) = False
   \<and> screenshots (objects (stop this t v) this) = screenshots (objects v this)
   \<and> arrays (stop this t v) = arrays v
   \<and> recorder (stop this t v) = recorder v
   \<and> nextRef (stop this t v) = nextRef v"
  by (simp add: stop_def Let_def self_def upd_def logLine_def)

lemma finalExport_returned:
  assumes "recorder w = Some this"
      and "upload cfg (fNet fenv) d = Resolved r"
  shows "recording (objects (finalExport cfg fenv w) this) = False
       \<and> exited (finalExport cfg fenv w)
       \<and> arrays (finalExport cfg fenv w) = arrays w
       \<and> recorder (finalExport cfg fenv w) = Some this"
proof -
  have u: "upload cfg (fNet fenv) d' = Resolved r" for d'
    using assms(2) upload_ignores_data [of cfg "fNet fenv" d' d] by simp
  show ?thesis
    using assms(1) by (simp add: finalExport_def Let_def u exportData_snd stop_effect)
qed

lemma finalExport_rejected:
  assumes "recorder w = Some this"
      and "upload cfg (fNet fenv) d = Rejected e"
  shows "recording (objects (finalExport cfg fenv w) this) = recording (objects w this)
       \<and> exited (finalExport cfg fenv w) = exited w
       \<and> arrays (finalExport cfg fenv w) = arrays w
       \<and> recorder (finalExport cfg fenv w) = Some this"
proof -
  have u: "upload cfg (fNet fenv) d' = Rejected e" for d'
    using assms(2) upload_ignores_data [of cfg "fNet fenv" d' d] by simp
  show ?thesis
    using assms(1) by (simp add: finalExport_def Let_def u exportData_snd upd_def)
qed

lemma uploadDataHandler_keeps_session:
  assumes "recorder w = Some this"
  shows "recorder (snd (uploadDataHandler (Some cfg) fenv w)) = Some this
       \<and> arrays (snd (uploadDataHandler (Some cfg) fenv w)) = arrays w
       \<and> recording (objects (snd (uploadDataHandler (Some cfg) fenv w)) this)
           = recording (objects w this)
       \<and> timer (objects (snd (uploadDataHandler (Some cfg) fenv w)) this)
           = timer (objects w this)"
  using assms
  by (simp add: uploadDataHandler_def Let_def exportData_snd notifyUploadFailure_def
      split: outcome.splits)

text \<open>
  C2, as stated, fails. The remote-stop check exports a running session that holds 50
  records; \<^verbatim>\<open>upload\<close> returns \<^verbatim>\<open>success = false\<close>; the recorder is stopped all the
  same, and the process exits.
\<close>

theorem remote_stop_after_failed_export_counterexample:
  "upload demoConfig (fNet (finalEnv apiRefuses))
      (fst (exportData 0 3000000 3000000 fullSys))
     = Resolved \<lparr>success' = False, message = ''quota''\<rparr>
   \<and> recording (objects fullSys 0)
   \<and> \<not> recording (objects
         (remoteStopCheck (Some demoConfig) stopSignal (finalEnv apiRefuses) fullSys) 0)
   \<and> exited (remoteStopCheck (Some demoConfig) stopSignal (finalEnv apiRefuses) fullSys)"
proof -
  have r: "recorder fullSys = Some 0" by (simp add: fullSys_def evalDefs)
  have rec: "recording (objects fullSys 0)" by (simp add: fullSys_def evalDefs)
  have u: "upload demoConfig (fNet (finalEnv apiRefuses)) d
           = Resolved \<lparr>success' = False, message = ''quota''\<rparr>" for d
    by (simp add: upload_def demoConfig_def finalEnv_def apiRefuses_def uploadToApi_def)
  have e: "remoteStopCheck (Some demoConfig) stopSignal (finalEnv apiRefuses) fullSys
           = finalExport demoConfig (finalEnv apiRefuses) fullSys"
    by (simp add: remoteStopCheck_def stopSignal_def)
  show ?thesis
    using finalExport_returned [OF r u] rec by (simp add: e u)
qed

text \<open>
  C2, amended. What follows an export depends on the caller; no caller removes a
  screenshot record. In the auto-upload check a failed export (rejected, or
  \<^verbatim>\<open>success = false\<close>) leaves the same recorder in the module variable, running as
  before, and only \<^verbatim>\<open>success = true\<close> retires it: the old recorder is stopped and a
  new, started one with an empty array takes its place. The manual upload never stops or
  replaces the session. The remote-stop and the end-of-study check, once triggered,
  discard the result: whenever \<^verbatim>\<open>upload\<close> returns, with \<^verbatim>\<open>success = false\<close> as with
  \<^verbatim>\<open>success = true\<close>, the recorder is stopped and the process exits; only a rejected
  upload skips the stop and the exit.
\<close>

theorem export_outcome_by_caller:
  assumes "recorder w = Some this"
      and "this < nextRef w"
      and "screenshots (objects w this) < nextRef w"
      and "wa = runAutoUploadCheck (Some cfg) env w"
      and "wm = snd (uploadDataHandler (Some cfg) fenv w)"
      and "wq = finalExport cfg fenv w"
  shows "((\<forall>d r. upload cfg (net env) d = Resolved r \<longrightarrow> \<not> success' r) \<longrightarrow>
            recorder wa = Some this \<and> arrays wa = arrays w
            \<and> screenshots (objects wa this) = screenshots (objects w this)
            \<and> recording (objects wa this) = recording (objects w this)
            \<and> timer (objects wa this) = timer (objects w this))
       \<and> ((\<exists>d r. upload cfg (net env) d = Resolved r \<and> success' r)
            \<and> AUTO_UPLOAD_THRESHOLD \<le> length (arrays w (screenshots (objects w this)))
            \<and> mkdirOk env \<and> importsOk env \<longrightarrow>
            recording (objects wa this) = False
            \<and> recorder wa = Some (nextRef w) \<and> nextRef w \<noteq> this
            \<and> recording (objects wa (nextRef w)) = True
            \<and> arrays wa (screenshots (objects wa (nextRef w))) = []
            \<and> arrays wa (screenshots (objects w this)) = arrays w (screenshots (objects w this)))
       \<and> (recorder wa \<noteq> recorder w \<or> recording (objects wa this) \<noteq> recording (objects w this)
            \<longrightarrow> (\<exists>d r. upload cfg (net env) d = Resolved r \<and> success' r))
       \<and> (recorder wm = Some this \<and> arrays wm = arrays w
            \<and> recording (objects wm this) = recording (objects w this))
       \<and> ((\<exists>d r. upload cfg (fNet fenv) d = Resolved r) \<longrightarrow>
            recording (objects wq this) = False \<and> exited wq
            \<and> arrays wq = arrays w \<and> recorder wq = Some this)
       \<and> ((\<exists>d e. upload cfg (fNet fenv) d = Rejected e) \<longrightarrow>
            recording (objects wq this) = recording (objects w this) \<and> exited wq = exited w
            \<and> arrays wq = arrays w \<and> recorder wq = Some this)
       \<and> remoteStopCheck (Some cfg)
            (Resolved \<lparr>statusOk = True,
                       statusJson = Resolved \<lparr>should_stop = True, statusMessage = m\<rparr>\<rparr>) fenv w
           = wq
       \<and> (d0 \<le> now \<longrightarrow> checkEndDate cfg (Some d0) now fenv w = wq)"
proof -
  note auto = autoUpload_retains_or_retires [OF assms(1,2,3,4)]
  have a1: "(\<forall>d r. upload cfg (net env) d = Resolved r \<longrightarrow> \<not> success' r) \<longrightarrow>
            recorder wa = Some this \<and> arrays wa = arrays w
            \<and> screenshots (objects wa this) = screenshots (objects w this)
            \<and> recording (objects wa this) = recording (objects w this)
            \<and> timer (objects wa this) = timer (objects w this)"
    using auto by blast
  have a2: "(\<exists>d r. upload cfg (net env) d = Resolved r \<and> success' r)
            \<and> AUTO_UPLOAD_THRESHOLD \<le> length (arrays w (screenshots (objects w this)))
            \<and> mkdirOk env \<and> importsOk env \<longrightarrow>
            recording (objects wa this) = False
            \<and> recorder wa = Some (nextRef w) \<and> nextRef w \<noteq> this
            \<and> recording (objects wa (nextRef w)) = True
            \<and> arrays wa (screenshots (objects wa (nextRef w))) = []
            \<and> arrays wa (screenshots (objects w this)) = arrays w (screenshots (objects w this))"
    using auto by blast
  have a3: "recorder wa \<noteq> recorder w \<or> recording (objects wa this) \<noteq> recording (objects w this)
            \<longrightarrow> (\<exists>d r. upload cfg (net env) d = Resolved r \<and> success' r)"
    using auto by blast
  have m: "recorder wm = Some this \<and> arrays wm = arrays w
            \<and> recording (objects wm this) = recording (objects w this)"
    using uploadDataHandler_keeps_session [OF assms(1), of cfg fenv] by (simp add: assms(5))
  have f1: "(\<exists>d r. upload cfg (fNet fenv) d = Resolved r) \<longrightarrow>
            recording (objects wq this) = False \<and> exited wq
            \<and> arrays wq = arrays w \<and> recorder wq = Some this"
    using finalExport_returned [OF assms(1)] by (auto simp: assms(6))
  have f2: "(\<exists>d e. upload cfg (fNet fenv) d = Rejected e) \<longrightarrow>
            recording (objects wq this) = recording (objects w this) \<and> exited wq = exited w
            \<and> arrays wq = arrays w \<and> recorder wq = Some this"
    using finalExport_rejected [OF assms(1)] by (auto simp: assms(6))
  have rs: "remoteStopCheck (Some cfg)
            (Resolved \<lparr>statusOk = True,
                       statusJson = Resolved \<lparr>should_stop = True, statusMessage = m\<rparr>\<rparr>) fenv w
           = wq"
    by (simp add: remoteStopCheck_def assms(6))
  have ce: "d0 \<le> now \<longrightarrow> checkEndDate cfg (Some d0) now fenv w = wq"
    by (simp add: checkEndDate_def assms(6))
  show ?thesis using a1 a2 a3 m f1 f2 rs ce by blast
qed

theorem export_outcome_by_caller_witness:
  "recorder (runAutoUploadCheck (Some demoConfig) (autoEnv apiRefuses) fullSys) = Some 0
   \<and> arrays (runAutoUploadCheck (Some demoConfig) (autoEnv apiRefuses) fullSys) 2
       = replicate 50 demoRecord
   \<and> recording (objects (runAutoUploadCheck (Some demoConfig) (autoEnv apiRefuses) fullSys) 0)
   \<and> recorder (runAutoUploadCheck (Some demoConfig) (autoEnv apiAccepts) fullSys) = Some 3
   \<and> \<not> recording (objects (runAutoUploadCheck (Some demoConfig) (autoEnv apiAccepts) fullSys) 0)
   \<and> \<not> recording (objects (finalExport demoConfig (finalEnv apiRefuses) fullSys) 0)
   \<and> arrays (finalExport demoConfig (finalEnv apiRefuses) fullSys) 2 = replicate 50 demoRecord"
proof -
  have a: "recorder fullSys = Some 0" by (simp add: fullSys_def evalDefs)
  have b: "0 < nextRef fullSys" by (simp add: fullSys_def evalDefs)
  have s: "screenshots (objects fullSys 0) = 2" by (simp add: fullSys_def evalDefs)
  have c: "screenshots (objects fullSys 0) < nextRef fullSys" by (simp add: fullSys_def evalDefs)
  have n: "nextRef fullSys = 3" by (simp add: fullSys_def evalDefs)
  have arr: "arrays fullSys 2 = replicate 50 demoRecord" by (simp add: fullSys_def)
  have rec: "recording (objects fullSys 0)" by (simp add: fullSys_def evalDefs)
  have refuses: "\<forall>d r. upload demoConfig (net (autoEnv apiRefuses)) d = Resolved r
                   \<longrightarrow> \<not> success' r"
    by (simp add: upload_def demoConfig_def autoEnv_def apiRefuses_def uploadToApi_def)
  have accepts: "(\<exists>d r. upload demoConfig (net (autoEnv apiAccepts)) d = Resolved r \<and> success' r)
      \<and> AUTO_UPLOAD_THRESHOLD \<le> length (arrays fullSys (screenshots (objects fullSys 0)))
      \<and> mkdirOk (autoEnv apiAccepts) \<and> importsOk (autoEnv apiAccepts)"
    by (simp add: upload_def demoConfig_def autoEnv_def apiAccepts_def uploadToApi_def
        AUTO_UPLOAD_THRESHOLD_def s arr)
  have returns: "\<exists>d r. upload demoConfig (fNet (finalEnv apiRefuses)) d = Resolved r"
    by (simp add: upload_def demoConfig_def finalEnv_def apiRefuses_def uploadToApi_def)
  note t1 = export_outcome_by_caller [OF a b c refl refl refl, where cfg = demoConfig
              and env = "autoEnv apiRefuses" and fenv = "finalEnv apiRefuses",
              THEN conjunct1, THEN mp, OF refuses]
  note t2 = export_outcome_by_caller [OF a b c refl refl refl, where cfg = demoConfig
              and env = "autoEnv apiAccepts" and fenv = "finalEnv apiRefuses",
              THEN conjunct2, THEN conjunct1, THEN mp, OF accepts]
  note t3 = export_outcome_by_caller [OF a b c refl refl refl, where cfg = demoConfig
              and env = "autoEnv apiRefuses" and fenv = "finalEnv apiRefuses",
              THEN conjunct2, THEN conjunct2, THEN conjunct2, THEN conjunct2,
              THEN conjunct1, THEN mp, OF returns]
  show ?thesis using t1 t2 t3 by (simp add: arr rec n s)
qed

end
